theory Spec2Isabelle
  imports Main "HOL-Library.AList" "HOL-Library.Char_ord" "HOL-Library.List_Lexorder"
begin

section \<open>Data model\<close>

text \<open>
  What a response body or another \<open>interface{}\<close> holds. A decoded JSON value, as
  Go's \<open>encoding/json\<close> hands it over: \<open>nil\<close> is \<open>JNull\<close>, a
  \<open>[]interface{}\<close> is \<open>JList\<close>, a \<open>map[string]interface{}\<close> is \<open>JObj\<close>,
  given by its entries (keys distinct). Numbers are payload only (nothing below computes
  with them) and are kept as integers. \<open>JEmptyBody\<close> is the body without a value that
  the aggregation tests write \<open>&restql.ResponseBody{}\<close>; it is not \<open>nil\<close>.
\<close>

datatype json =
    JNull
  | JBool bool
  | JNum int
  | JStr string
  | JList "json list"
  | JObj "(string \<times> json) list"
  | JEmptyBody

text \<open>
  The values a statement field of type \<open>interface{}\<close> holds after parsing (package
  \<open>domain\<close>): a literal, or one of the structs \<open>Variable\<close>, \<open>Chain\<close>,
  \<open>Flatten\<close>, \<open>Json\<close>, \<open>Base64\<close>, \<open>Match\<close>.
\<close>

datatype Value =
    Literal json
  | Variable string
  | Chain "Value list"
  | Flatten Value
  | Json Value
  | Base64 Value
  | Match Value string

record CacheControl =
  MaxAge :: Value
  SMaxAge :: Value

text \<open>
  \<open>domain.Statement\<close>. The field \<open>In\<close> is the one the aggregation tests set
  (\<open>In: []string{"hero", "sidekick"}\<close>); Go maps that are only carried along are
  association lists.
\<close>

record Statement =
  Method :: string
  Resource :: string
  Alias :: string
  In :: "string list"
  Headers :: "(string \<times> Value) list"
  Timeout :: Value
  With :: "(string \<times> Value) list"
  Only :: "Value list"
  Hidden :: bool
  CacheControl :: CacheControl
  IgnoreErrors :: bool

definition zeroStatement :: Statement where
  "zeroStatement =
     \<lparr>Method = [], Resource = [], Alias = [], In = [], Headers = [],
      Timeout = Literal JNull, With = [], Only = [], Hidden = False,
      CacheControl = \<lparr>MaxAge = Literal JNull, SMaxAge = Literal JNull\<rparr>,
      IgnoreErrors = False\<rparr>"

record Query =
  Use :: "(string \<times> Value) list"
  Statements :: "Statement list"

text \<open>The zero value \<open>domain.Query{}\<close>: no modifiers and no statements.\<close>

definition zeroQuery :: Query where
  "zeroQuery = \<lparr>Use = [], Statements = []\<rparr>"

record Mapping =
  ResourceName :: string
  Schema :: string
  Uri :: string
  PathParams :: "string list"

text \<open>The client format of a statement's details (package \<open>web\<close>).\<close>

record StatementDebugging =
  Method :: string
  URL :: string
  RequestHeaders :: "(string \<times> string) list"
  ResponseHeaders :: "(string \<times> string) list"
  Params :: "(string \<times> json) list"
  RequestBody :: json
  ResponseTime :: int

record StatementMetadata =
  IgnoreErrors :: string

record StatementDetails =
  Status :: int
  Success :: bool
  Metadata :: StatementMetadata
  Debug :: "StatementDebugging option"

text \<open>
  The result of one upstream call. The struct is declared outside the files at hand; its
  fields are the ones the response code reads. From here on the unqualified field names
  (\<open>Status\<close>, \<open>IgnoreErrors\<close>, \<open>CacheControl\<close>, ...) are the ones of
  \<open>DoneResource\<close>.
\<close>

record ResourceCacheControlValue =
  Exist :: bool
  Time :: int

record ResourceCacheControl =
  NoCache :: bool
  MaxAge :: ResourceCacheControlValue
  SMaxAge :: ResourceCacheControlValue

record DoneResource =
  Status :: int
  Success :: bool
  IgnoreErrors :: bool
  CacheControl :: ResourceCacheControl
  Method :: string
  URL :: string
  RequestParams :: "(string \<times> json) list"
  RequestHeaders :: "(string \<times> string) list"
  RequestBody :: json
  ResponseHeaders :: "(string \<times> string) list"
  ResponseBody :: json
  ResponseTime :: int

definition zeroCacheControlValue :: ResourceCacheControlValue where
  "zeroCacheControlValue = \<lparr>Exist = False, Time = 0\<rparr>"

definition zeroCacheControl :: ResourceCacheControl where
  "zeroCacheControl =
     \<lparr>NoCache = False, MaxAge = zeroCacheControlValue, SMaxAge = zeroCacheControlValue\<rparr>"

definition zeroDoneResource :: DoneResource where
  "zeroDoneResource =
     \<lparr>Status = 0, Success = False, IgnoreErrors = False, CacheControl = zeroCacheControl,
      Method = [], URL = [], RequestParams = [], RequestHeaders = [], RequestBody = JNull,
      ResponseHeaders = [], ResponseBody = JNull, ResponseTime = 0\<rparr>"

text \<open>
  What a \<open>Resources\<close> entry holds (an \<open>interface{}\<close>): a \<open>DoneResource\<close>, a
  \<open>DoneResources\<close> (a slice of entries, from a multiplexed statement), or a value of
  any other dynamic type, named by that type.
\<close>

datatype Resource =
    DoneResourceV DoneResource
  | DoneResourcesV "Resource list"
  | OtherValue string

text \<open>
  \<open>domain.Resources\<close> is a Go map. It is given by its entries in the order a
  \<open>range\<close> loop visits them; the language leaves that order open, so a statement
  about the map holds for every such list.
\<close>

type_synonym Resources = "(string \<times> Resource) list"

section \<open>Responder: the aggregate status code\<close>

definition statusNormalization :: "int \<rightharpoonup> int" where
  "statusNormalization = [0 \<mapsto> 500, 204 \<mapsto> 200, 201 \<mapsto> 200]"

text \<open>The second loop of \<open>findMaxStatusCode\<close>, started at \<open>maxStatusCode := 200\<close>.\<close>

fun maxLoop :: "int \<Rightarrow> int list \<Rightarrow> int" where
  "maxLoop maxStatusCode [] = maxStatusCode"
| "maxLoop maxStatusCode (status # rest) =
     maxLoop (if status > maxStatusCode then status else maxStatusCode) rest"

fun calculateResultStatusCode :: "Resource \<Rightarrow> int"
  and findMaxStatusCode :: "Resource list \<Rightarrow> int" where
  "calculateResultStatusCode (DoneResourceV r) =
     (if IgnoreErrors r then 200
      else (case statusNormalization (Status r) of
              Some normalizedStatus \<Rightarrow> normalizedStatus
            | None \<Rightarrow> Status r))"
| "calculateResultStatusCode (DoneResourcesV r) = findMaxStatusCode r"
| "calculateResultStatusCode (OtherValue t) = 500"
| "findMaxStatusCode results = maxLoop 200 (map calculateResultStatusCode results)"

definition CalculateStatusCode :: "Resources \<Rightarrow> int" where
  "CalculateStatusCode queryResult = findMaxStatusCode (map snd queryResult)"

text \<open>
  The status rule in the specification's words: the normalization
  \<open>0 \<rightarrow> 500, 201 \<rightarrow> 200, 204 \<rightarrow> 200\<close>, 200 for a statement with ignore-errors, the
  maximum over its own elements for a multiplexed statement, and the aggregate as the
  plain maximum over the statements. (An entry of any other type counts 500, as in the
  code; the specification is silent on it.)
\<close>

definition spec_normalize :: "int \<Rightarrow> int" where
  "spec_normalize s = (if s = 0 then 500 else if s = 201 \<or> s = 204 then 200 else s)"

fun spec_statement_status :: "Resource \<Rightarrow> int" where
  "spec_statement_status (DoneResourceV r) =
     (if IgnoreErrors r then 200 else spec_normalize (Status r))"
| "spec_statement_status (DoneResourcesV rs) = Max (set (map spec_statement_status rs))"
| "spec_statement_status (OtherValue t) = 500"

definition spec_aggregate_status :: "Resources \<Rightarrow> int" where
  "spec_aggregate_status rs = Max (set (map (spec_statement_status \<circ> snd) rs))"

section \<open>Responder: the aggregate Cache-Control\<close>

text \<open>One round of the loop over \<open>resourceCacheControls\<close> in \<open>findMinCacheControl\<close>.\<close>

definition minCacheControlStep ::
  "ResourceCacheControl \<Rightarrow> ResourceCacheControl \<Rightarrow> ResourceCacheControl" where
  "minCacheControlStep minCacheControl cc =
     (if NoCache minCacheControl then minCacheControl
      else if NoCache cc then minCacheControl\<lparr>NoCache := True\<rparr>
      else
        (let m1 = (if \<not> Exist (MaxAge minCacheControl)
                      \<or> Time (MaxAge cc) < Time (MaxAge minCacheControl)
                   then minCacheControl\<lparr>MaxAge := MaxAge cc\<rparr> else minCacheControl);
             m2 = (if \<not> Exist (SMaxAge m1) \<or> Time (SMaxAge cc) < Time (SMaxAge m1)
                   then m1\<lparr>SMaxAge := SMaxAge cc\<rparr> else m1)
         in m2\<lparr>NoCache := False\<rparr>))"

fun calculateResultCacheControl :: "Resource \<Rightarrow> ResourceCacheControl"
  and findMinCacheControl :: "Resource list \<Rightarrow> ResourceCacheControl" where
  "calculateResultCacheControl (DoneResourceV result) = CacheControl result"
| "calculateResultCacheControl (DoneResourcesV result) = findMinCacheControl result"
| "calculateResultCacheControl (OtherValue t) = zeroCacheControl"
| "findMinCacheControl results =
     foldl minCacheControlStep
       \<lparr>NoCache = False, MaxAge = \<lparr>Exist = False, Time = 0\<rparr>,
        SMaxAge = \<lparr>Exist = False, Time = 0\<rparr>\<rparr>
       (map calculateResultCacheControl results)"

definition calculateCacheControl :: "Resources \<Rightarrow> ResourceCacheControl" where
  "calculateCacheControl queryResult = findMinCacheControl (map snd queryResult)"

text \<open>\<open>strconv.Itoa\<close>: the decimal digits of an integer, with a sign when negative.\<close>

function natDigits :: "nat \<Rightarrow> string" where
  "natDigits n =
     (if n < 10 then [char_of (48 + n)]
      else natDigits (n div 10) @ [char_of (48 + n mod 10)])"
  by pat_completeness auto
termination
  by (relation "measure id") auto

definition Itoa :: "int \<Rightarrow> string" where
  "Itoa i = (if i < 0 then CHR ''-'' # natDigits (nat (- i)) else natDigits (nat i))"

definition generateCacheControlString :: "ResourceCacheControl \<Rightarrow> string" where
  "generateCacheControlString cacheControl =
     (if NoCache cacheControl then ''no-cache''
      else
        (let buf1 = (if Exist (MaxAge cacheControl)
                     then ''max-age='' @ Itoa (Time (MaxAge cacheControl)) else []);
             buf2 = (if Exist (SMaxAge cacheControl)
                     then (if length buf1 > 0 then buf1 @ '', '' else buf1)
                          @ ''s-maxage='' @ Itoa (Time (SMaxAge cacheControl))
                     else buf1)
         in buf2))"

definition makeHeaders :: "Resources \<Rightarrow> (string \<rightharpoonup> string)" where
  "makeHeaders queryResult =
     (let cacheControlString = generateCacheControlString (calculateCacheControl queryResult)
      in if cacheControlString \<noteq> [] then [''Cache-Control'' \<mapsto> cacheControlString]
         else Map.empty)"

text \<open>
  The cache rule in the specification's words: the cache controls of the statements (one
  per element for a multiplexed statement), and the minimum age among those that declare
  one.
\<close>

fun spec_cache_controls :: "Resource \<Rightarrow> ResourceCacheControl list" where
  "spec_cache_controls (DoneResourceV r) = [CacheControl r]"
| "spec_cache_controls (DoneResourcesV rs) = concat (map spec_cache_controls rs)"
| "spec_cache_controls (OtherValue t) = []"

definition spec_min_age ::
  "(ResourceCacheControl \<Rightarrow> ResourceCacheControlValue) \<Rightarrow> Resources
     \<Rightarrow> ResourceCacheControlValue" where
  "spec_min_age age rs =
     (let declared = filter Exist (map age (concat (map (spec_cache_controls \<circ> snd) rs)))
      in if declared = [] then \<lparr>Exist = False, Time = 0\<rparr>
         else \<lparr>Exist = True, Time = Min (set (map Time declared))\<rparr>)"

fun anyNoCache :: "Resource \<Rightarrow> bool" where
  "anyNoCache (DoneResourceV r) = NoCache (CacheControl r)"
| "anyNoCache (DoneResourcesV rs) = list_ex anyNoCache rs"
| "anyNoCache (OtherValue t) = False"

text \<open>A \<open>DoneResource\<close> that declares \<open>max-age\<close> and nothing else.\<close>

definition declaredMaxAge :: "int \<Rightarrow> DoneResource" where
  "declaredMaxAge t = zeroDoneResource\<lparr>CacheControl :=
     \<lparr>NoCache = False, MaxAge = \<lparr>Exist = True, Time = t\<rparr>,
      SMaxAge = \<lparr>Exist = False, Time = 0\<rparr>\<rparr>\<rparr>"

section \<open>Responder: the body\<close>

text \<open>
  \<open>StatementResult.Details\<close> is an \<open>interface{}\<close>: \<open>nil\<close>, one
  \<open>StatementDetails\<close>, or a slice of such values. \<open>StatementResult.Result\<close> holds
  a response body or a slice of them, which is a JSON value (\<open>nil\<close> is \<open>JNull\<close>).
\<close>

datatype DetailsValue =
    DetailsNil
  | DetailsOf StatementDetails
  | DetailsList "DetailsValue list"

record StatementResult =
  Details :: DetailsValue
  Result :: json

record QueryResponse =
  StatusCode :: int
  Body :: "string \<rightharpoonup> StatementResult"
  Headers :: "string \<rightharpoonup> string"

definition parseDebug :: "DoneResource \<Rightarrow> StatementDebugging" where
  "parseDebug resource =
     \<lparr>StatementDebugging.Method = Method resource,
      StatementDebugging.URL = URL resource,
      StatementDebugging.RequestHeaders = RequestHeaders resource,
      StatementDebugging.ResponseHeaders = ResponseHeaders resource,
      Params = RequestParams resource,
      StatementDebugging.RequestBody = RequestBody resource,
      StatementDebugging.ResponseTime = ResponseTime resource\<rparr>"

definition parseDetails :: "DoneResource \<Rightarrow> bool \<Rightarrow> StatementDetails" where
  "parseDetails resource debug =
     \<lparr>StatementDetails.Status = Status resource,
      StatementDetails.Success = Success resource,
      Metadata = \<lparr>StatementMetadata.IgnoreErrors =
                    (if IgnoreErrors resource then ''ignore'' else [])\<rparr>,
      Debug = (if debug then Some (parseDebug resource) else None)\<rparr>"

text \<open>
  The loop of \<open>parseResource\<close> over a \<open>DoneResources\<close>, run on the results of the
  recursive calls: \<open>details\<close> and \<open>results\<close> start as slices of \<open>nil\<close>, slot
  \<open>i\<close> is written only by a value that is not \<open>nil\<close>.
\<close>

fun collectResults ::
  "nat \<Rightarrow> StatementResult list \<Rightarrow> DetailsValue list \<times> json list \<times> bool
     \<Rightarrow> DetailsValue list \<times> json list \<times> bool" where
  "collectResults i [] acc = acc"
| "collectResults i (result # rest) (details, results, hasResult) =
     (let details' = (if Details result \<noteq> DetailsNil
                      then details[i := Details result] else details);
          results' = (if Result result \<noteq> JNull
                      then results[i := Result result] else results);
          hasResult' = (if Result result \<noteq> JNull then True else hasResult)
      in collectResults (Suc i) rest (details', results', hasResult'))"

fun parseResource :: "Resource \<Rightarrow> bool \<Rightarrow> StatementResult" where
  "parseResource (DoneResourceV resource) debug =
     \<lparr>Details = DetailsOf (parseDetails resource debug), Result = ResponseBody resource\<rparr>"
| "parseResource (DoneResourcesV resource) debug =
     (case collectResults 0 (map (\<lambda>r. parseResource r debug) resource)
             (replicate (length resource) DetailsNil,
              replicate (length resource) JNull, False) of
        (details, results, hasResult) \<Rightarrow>
          if \<not> hasResult then \<lparr>Details = DetailsList details, Result = JNull\<rparr>
          else \<lparr>Details = DetailsList details, Result = JList results\<rparr>)"
| "parseResource (OtherValue t) debug = \<lparr>Details = DetailsNil, Result = JNull\<rparr>"

definition MakeQueryResponse :: "Resources \<Rightarrow> bool \<Rightarrow> QueryResponse" where
  "MakeQueryResponse queryResult debug =
     \<lparr>StatusCode = CalculateStatusCode queryResult,
      Body = fold (\<lambda>(key, resource) m. m(key \<mapsto> parseResource resource debug))
               queryResult Map.empty,
      Headers = makeHeaders queryResult\<rparr>"

text \<open>
  \<open>Respond\<close> writes the body with \<open>encoding/json\<close>, which emits the keys of a Go
  map in sorted order: the order in which the keys of the body reach the client.
\<close>

definition encodedKeys :: "(string \<rightharpoonup> 'a) \<Rightarrow> string list" where
  "encodedKeys m = sorted_list_of_set (dom m)"

text \<open>
  Modelled from the spec: \<open>domain.NewResourceID\<close> is declared outside the files at
  hand. A statement is stored under its alias, and under its resource name when it has no
  alias.
\<close>

definition NewResourceID :: "Statement \<Rightarrow> string" where
  "NewResourceID stmt = (if Alias stmt \<noteq> [] then Alias stmt else Resource stmt)"

text \<open>A value that is a list of \<open>n\<close> elements, as the specification words it.\<close>

definition spec_list_valued :: "nat \<Rightarrow> json \<Rightarrow> bool" where
  "spec_list_valued n v = (case v of JList xs \<Rightarrow> length xs = n | _ \<Rightarrow> False)"

text \<open>The statement \<open>from name\<close>.\<close>

definition fromStatement :: "string \<Rightarrow> Statement" where
  "fromStatement name = zeroStatement\<lparr>Statement.Method := ''from'', Resource := name\<rparr>"

section \<open>Parser entry point\<close>

text \<open>A Go \<open>error\<close> value, by its message; a \<open>nil\<close> error is \<open>None\<close>.\<close>

datatype error = Error string

text \<open>
  The AST generator (package \<open>ast\<close>, generated from the grammar) and \<open>Optimize\<close>
  are declared outside the files at hand and are parameters. As in Go, the generator
  returns a value and an error side by side.
\<close>

record 'ast parser =
  astGenerator :: "string \<Rightarrow> 'ast \<times> error option"

definition Parse ::
  "('ast \<Rightarrow> Query \<times> error option) \<Rightarrow> 'ast parser \<Rightarrow> string \<Rightarrow> Query \<times> error option" where
  "Parse Optimize p queryStr =
     (case astGenerator p queryStr of
        (query, Some err) \<Rightarrow> (zeroQuery, Some err)
      | (query, None) \<Rightarrow> Optimize query)"

section \<open>Persistence\<close>

text \<open>
  Modelled from the spec: \<open>restql.SavedQuery\<close> is declared outside the files at hand;
  the saved-query store hands out the text of a query.
\<close>

record SavedQuery =
  Text :: string

definition zeroSavedQuery :: SavedQuery where
  "zeroSavedQuery = \<lparr>Text = []\<rparr>"

text \<open>
  A value that implements the \<open>Database\<close> interface is the no-op database or a
  database plugin, given by its two methods (the context argument is left out). What a
  plugin's constructor returns is an \<open>interface{}\<close>: \<open>nil\<close>, a database plugin, or
  a value of another type, named by that type.
\<close>

record DatabasePlugin =
  pluginFindMappingsForTenant :: "string \<Rightarrow> Mapping list \<times> error option"
  pluginFindQuery :: "string \<Rightarrow> string \<Rightarrow> int \<Rightarrow> SavedQuery \<times> error option"

datatype Database =
    noOpDatabase
  | pluginDatabase DatabasePlugin

datatype PluginValue =
    NilPlugin
  | DatabasePluginV DatabasePlugin
  | OtherPlugin string

record PluginInfo =
  Name :: string
  New :: "PluginValue \<times> error option"

definition errNoDatabase :: error where
  "errNoDatabase = Error ''no op database''"

text \<open>
  \<open>NewDatabase\<close>, given what \<open>restql.GetDatabasePlugin\<close> finds in the registry
  (\<open>New\<close> of a plugin is what its constructor returns when called). The second
  component is what \<open>NewDatabase\<close> writes to the log: the messages with their fields.
\<close>

definition NewDatabase ::
  "PluginInfo option \<Rightarrow> (Database \<times> error option) \<times> (string \<times> (string \<times> string) list) list" where
  "NewDatabase registered =
     (case registered of
        None \<Rightarrow> ((noOpDatabase, None), [(''no database plugin provided'', [])])
      | Some pluginInfo \<Rightarrow>
          (case New pluginInfo of
             (dbPlugin, Some err) \<Rightarrow> ((noOpDatabase, Some err), [])
           | (NilPlugin, None) \<Rightarrow>
               ((noOpDatabase, None),
                [(''empty database instance returned by plugin'',
                  [(''plugin'', Name pluginInfo)])])
           | (DatabasePluginV database, None) \<Rightarrow> ((pluginDatabase database, None), [])
           | (OtherPlugin t, None) \<Rightarrow>
               ((noOpDatabase,
                 Some (Error (''failed to cast database plugin, unknown type: '' @ t))), [])))"

fun FindMappingsForTenant :: "Database \<Rightarrow> string \<Rightarrow> Mapping list \<times> error option" where
  "FindMappingsForTenant noOpDatabase tenantID = ([], Some errNoDatabase)"
| "FindMappingsForTenant (pluginDatabase d) tenantID = pluginFindMappingsForTenant d tenantID"

fun FindQuery :: "Database \<Rightarrow> string \<Rightarrow> string \<Rightarrow> int \<Rightarrow> SavedQuery \<times> error option" where
  "FindQuery noOpDatabase namespace name revision = (zeroSavedQuery, Some errNoDatabase)"
| "FindQuery (pluginDatabase d) namespace name revision = pluginFindQuery d namespace name revision"

text \<open>A generator that rejects the query \<open>from\<close> and hands back what it had read.\<close>

definition rejectingGenerator :: "string \<Rightarrow> string list \<times> error option" where
  "rejectingGenerator s =
     (if s = ''from'' then ([''from''], Some (Error ''1:5 (4): no match found''))
      else ([s], None))"

section \<open>Shaper: aggregation with \<open>in\<close>\<close>

text \<open>
  Modelled from the spec: \<open>eval.ApplyAggregators\<close> and everything it calls are declared
  outside the files at hand; only its test table is here. The definitions of this section
  follow the insertion rules of the specification (section 4.5, In), and the test table
  is evaluated against them below.
\<close>

text \<open>
  Modelled from the spec: the empty body that replaces the body of an aggregated source
  (the tests write \<open>&restql.ResponseBody{}\<close>, and keep it apart from a \<open>nil\<close>
  body).
\<close>

definition emptyBody :: json where
  "emptyBody = JEmptyBody"

text \<open>
  Modelled from the spec: the insertion of a source body into a target body at a path.
  A target that is a list takes the insertion element-wise: index by index when the
  source is a list of the same length, and a copy of the whole source per element
  otherwise. A target that is an object has the key set at the end of the path, and the
  insertion continues below the key before that (a key that is absent starts as an empty
  object, as the test for a deep location expects). The specification gives no rule for
  any other target or for an empty path: the target is left as it is.
\<close>

function (sequential) insertBody :: "string list \<Rightarrow> json \<Rightarrow> json \<Rightarrow> json" where
  "insertBody path source (JList targets) =
     (case source of
        JList sources \<Rightarrow>
          if length sources = length targets
          then JList (map (\<lambda>(s, t). insertBody path s t) (zip sources targets))
          else JList (map (insertBody path source) targets)
      | _ \<Rightarrow> JList (map (insertBody path source) targets))"
| "insertBody [] source (JObj entries) = JObj entries"
| "insertBody [key] source (JObj entries) = JObj (AList.update key source entries)"
| "insertBody (key # next # rest) source (JObj entries) =
     JObj (AList.update key
             (insertBody (next # rest) source
                (case map_of entries key of Some v \<Rightarrow> v | None \<Rightarrow> JObj []))
             entries)"
| "insertBody path source target = target"
  by pat_completeness auto
termination
proof (relation "measures [\<lambda>(path, source, target). length path,
                           \<lambda>(path, source, target). size target]")
  fix path :: "string list" and source :: json and targets sources :: "json list"
    and z :: "json \<times> json" and s t :: json
  assume "z \<in> set (zip sources targets)" and "(s, t) = z"
  then have "t \<in> set targets" by (metis set_zip_rightD)
  then have "size t < Suc (size_list size targets)"
    by (simp add: less_Suc_eq_le size_list_estimation')
  then show "((path, s, t), (path, source, JList targets))
      \<in> measures [\<lambda>(path, source, target). length path,
                   \<lambda>(path, source, target). size target]"
    by simp
qed (auto simp: less_Suc_eq_le size_list_estimation')

text \<open>
  Modelled from the spec: the body a source resource contributes; a multiplexed source
  contributes the list of its elements' bodies.
\<close>

fun bodyOf :: "Resource \<Rightarrow> json" where
  "bodyOf (DoneResourceV r) = ResponseBody r"
| "bodyOf (DoneResourcesV rs) = JList (map bodyOf rs)"
| "bodyOf (OtherValue t) = JNull"

text \<open>
  Modelled from the spec: the insertion lifted to resources. A multiplexed target takes the
  insertion element-wise, index by index from a multiplexed source of the same length and
  from the whole source otherwise.
\<close>

function (sequential) aggregateResource ::
  "string list \<Rightarrow> Resource \<Rightarrow> Resource \<Rightarrow> Resource" where
  "aggregateResource path source (DoneResourcesV targets) =
     (case source of
        DoneResourcesV sources \<Rightarrow>
          if length sources = length targets
          then DoneResourcesV (map (\<lambda>(s, t). aggregateResource path s t) (zip sources targets))
          else DoneResourcesV (map (aggregateResource path source) targets)
      | _ \<Rightarrow> DoneResourcesV (map (aggregateResource path source) targets))"
| "aggregateResource path source (DoneResourceV target) =
     DoneResourceV (target\<lparr>ResponseBody := insertBody path (bodyOf source) (ResponseBody target)\<rparr>)"
| "aggregateResource path source (OtherValue t) = OtherValue t"
  by pat_completeness auto
termination
proof (relation "measure (\<lambda>(path, source, target). size target)")
  fix path :: "string list" and source :: Resource and targets sources :: "Resource list"
    and z :: "Resource \<times> Resource" and s t :: Resource
  assume "z \<in> set (zip sources targets)" and "(s, t) = z"
  then have "t \<in> set targets" by (metis set_zip_rightD)
  then have "size t < Suc (size_list size targets)"
    by (simp add: less_Suc_eq_le size_list_estimation')
  then show "((path, s, t), (path, source, DoneResourcesV targets))
      \<in> measure (\<lambda>(path, source, target). size target)"
    by simp
qed (auto simp: less_Suc_eq_le size_list_estimation')

text \<open>
  Modelled from the spec: the source after the insertion, with the body of each of its
  \<open>DoneResource\<close>s replaced by the empty body.
\<close>

fun cleanSource :: "Resource \<Rightarrow> Resource" where
  "cleanSource (DoneResourceV r) = DoneResourceV (r\<lparr>ResponseBody := emptyBody\<rparr>)"
| "cleanSource (DoneResourcesV rs) = DoneResourcesV (map cleanSource rs)"
| "cleanSource (OtherValue t) = OtherValue t"

text \<open>
  Modelled from the spec: a source whose bodies are all the empty body. Such a source has
  been aggregated already and has nothing left to insert, so that running the aggregation
  again is a no-op (section 8, property 4).
\<close>

fun bodyEmpty :: "Resource \<Rightarrow> bool" where
  "bodyEmpty (DoneResourceV r) = (ResponseBody r = emptyBody)"
| "bodyEmpty (DoneResourcesV rs) = list_all bodyEmpty rs"
| "bodyEmpty (OtherValue t) = True"

text \<open>
  Modelled from the spec: the targets in which the insertion finds a place, so that the
  insertion is a successful one. The path is not empty and leads, below keys that are
  absent or hold an object or a list, to an object whose key is set; a list takes the
  insertion only if it has elements and each of them takes it. These are the targets in
  which \<open>insertBody\<close> puts the source (\<open>insertBody_nested\<close> below).
\<close>

fun insertableBody :: "string list \<Rightarrow> json \<Rightarrow> bool" where
  "insertableBody [] target = False"
| "insertableBody path (JList targets) =
     (targets \<noteq> [] \<and> list_all (insertableBody path) targets)"
| "insertableBody [key] (JObj entries) = True"
| "insertableBody (key # next # rest) (JObj entries) =
     insertableBody (next # rest)
       (case map_of entries key of Some v \<Rightarrow> v | None \<Rightarrow> JObj [])"
| "insertableBody path target = False"

text \<open>
  Modelled from the spec: the same for a target resource; a multiplexed target takes the
  insertion only if it has elements and each of them takes it.
\<close>

fun insertable :: "string list \<Rightarrow> Resource \<Rightarrow> bool" where
  "insertable path (DoneResourceV target) = insertableBody path (ResponseBody target)"
| "insertable path (DoneResourcesV targets) =
     (targets \<noteq> [] \<and> list_all (insertable path) targets)"
| "insertable path (OtherValue t) = False"


text \<open>
  Modelled from the spec: one statement of the query. When its aggregation takes place, the
  body of the source is inserted into the target and, after this successful insertion, the
  source is emptied; the map is left as it is otherwise.
\<close>

definition applyIn :: "Statement \<Rightarrow> Resources \<Rightarrow> Resources" where
  "applyIn stmt resources =
     (case In stmt of
        [] \<Rightarrow> resources
      | target # path \<Rightarrow>
          (case (map_of resources (NewResourceID stmt), map_of resources target) of
             (Some source, Some tgt) \<Rightarrow>
               if target \<noteq> NewResourceID stmt \<and> \<not> bodyEmpty source \<and> insertable path tgt
               then AList.update (NewResourceID stmt) (cleanSource source)
                      (AList.update target (aggregateResource path source tgt) resources)
               else resources
           | _ \<Rightarrow> resources))"

text \<open>Modelled from the spec: the statements are taken in source order.\<close>

definition ApplyAggregators :: "Query \<Rightarrow> Resources \<Rightarrow> Resources" where
  "ApplyAggregators query resources = fold applyIn (Statements query) resources"








definition isJList :: "json \<Rightarrow> bool" where
  "isJList v = (case v of JList xs \<Rightarrow> True | _ \<Rightarrow> False)"

text \<open>
  The data of the test table of \<open>ApplyAggregators\<close>: a \<open>DoneResource\<close> with a
  given body, the four heroes, and the query \<open>hero\<close>, \<open>sidekick in path\<close>.
\<close>

definition bodied :: "json \<Rightarrow> Resource" where
  "bodied v = DoneResourceV (zeroDoneResource\<lparr>ResponseBody := v\<rparr>)"

definition person :: "int \<Rightarrow> string \<Rightarrow> (string \<times> json) list" where
  "person i name = [(''id'', JNum i), (''name'', JStr name)]"

definition batman :: "(string \<times> json) list" where "batman = person 1 ''batman''"
definition wonderWoman :: "(string \<times> json) list" where "wonderWoman = person 2 ''wonder woman''"
definition robin :: json where "robin = JObj (person 10 ''robin'')"
definition batgirl :: json where "batgirl = JObj (person 11 ''batgirl'')"

definition testQuery :: "string list \<Rightarrow> Query" where
  "testQuery path =
     \<lparr>Use = [],
      Statements = [zeroStatement\<lparr>Resource := ''hero''\<rparr>,
                    zeroStatement\<lparr>Resource := ''sidekick'', In := path\<rparr>]\<rparr>"

section \<open>Properties of the status code\<close>

lemma maxLoop_Max: "maxLoop a xs = Max (insert a (set xs))"
proof (induction xs arbitrary: a)
  case Nil
  show ?case by simp
next
  case (Cons x xs)
  have "Max (insert a (set (x # xs))) = Max (insert (max a x) (set xs))"
  proof (cases "set xs = {}")
    case True
    then show ?thesis by (simp add: max.commute)
  next
    case False
    then show ?thesis by (simp add: max.assoc max.commute max.left_commute)
  qed
  moreover have "(if x > a then x else a) = max a x" by (simp add: max_def)
  ultimately show ?case using Cons.IH by simp
qed

lemma findMaxStatusCode_Max:
  "findMaxStatusCode rs = Max (insert 200 (calculateResultStatusCode ` set rs))"
  by (simp add: maxLoop_Max)

lemma statusNormalization_normalize:
  "(case statusNormalization s of Some n \<Rightarrow> n | None \<Rightarrow> s) = spec_normalize s"
  by (simp add: statusNormalization_def spec_normalize_def)

lemma findMaxStatusCode_ge: "200 \<le> findMaxStatusCode rs"
  unfolding findMaxStatusCode_Max by simp

lemma findMaxStatusCode_mem:
  "r \<in> set rs \<Longrightarrow> calculateResultStatusCode r \<le> findMaxStatusCode rs"
  unfolding findMaxStatusCode_Max by simp

text \<open>
  C1, as the code has it: the aggregate status is the maximum of 200 and the statuses the
  entries contribute. A \<open>DoneResource\<close> contributes 200 when it ignores errors and its
  normalized status (\<open>0 \<rightarrow> 500, 201 \<rightarrow> 200, 204 \<rightarrow> 200\<close>) otherwise; a
  \<open>DoneResources\<close> contributes the maximum of 200 and what its own elements contribute.
\<close>

theorem C1_status_is_max_from_200:
  "CalculateStatusCode rs = Max (insert 200 (calculateResultStatusCode ` snd ` set rs))
   \<and> calculateResultStatusCode (DoneResourceV r) =
        (if IgnoreErrors r then 200 else spec_normalize (Status r))
   \<and> calculateResultStatusCode (DoneResourcesV xs) =
        Max (insert 200 (calculateResultStatusCode ` set xs))"
  by (simp add: CalculateStatusCode_def findMaxStatusCode_Max statusNormalization_normalize
      image_image del: findMaxStatusCode.simps)

text \<open>
  C1 as stated, the plain maximum over the normalized statuses, fails for a single
  statement whose upstream answered 101: the maximum is 101, the code returns 200.
\<close>

theorem C1_counterexample:
  "CalculateStatusCode [(''hero'', DoneResourceV (zeroDoneResource\<lparr>Status := 101\<rparr>))]
   \<noteq> spec_aggregate_status [(''hero'', DoneResourceV (zeroDoneResource\<lparr>Status := 101\<rparr>))]"
  by (simp add: CalculateStatusCode_def spec_aggregate_status_def spec_normalize_def
      statusNormalization_def zeroDoneResource_def)

text \<open>
  C10: the aggregate status is never below 200, it is 200 for the empty map, and an entry
  that is neither a \<open>DoneResource\<close> nor a \<open>DoneResources\<close> counts as 500, which lifts
  the aggregate of every map that holds one to at least 500.
\<close>

theorem C10_status_floor:
  "200 \<le> CalculateStatusCode rs
   \<and> CalculateStatusCode [] = 200
   \<and> calculateResultStatusCode (OtherValue t) = 500
   \<and> 500 \<le> CalculateStatusCode (pre @ (k, OtherValue t) # post)"
proof -
  have "calculateResultStatusCode (OtherValue t)
          \<le> findMaxStatusCode (map snd (pre @ (k, OtherValue t) # post))"
    by (rule findMaxStatusCode_mem) simp
  moreover have "findMaxStatusCode [] = 200" by simp
  ultimately show ?thesis
    by (simp add: CalculateStatusCode_def findMaxStatusCode_ge del: findMaxStatusCode.simps)
qed

section \<open>Properties of the Cache-Control merge\<close>

lemma minCacheControlStep_NoCache:
  "NoCache (minCacheControlStep m cc) = (NoCache m \<or> NoCache cc)"
  by (simp add: minCacheControlStep_def Let_def)

lemma foldl_minCacheControlStep_NoCache:
  "NoCache (foldl minCacheControlStep m ccs) = (NoCache m \<or> list_ex NoCache ccs)"
  by (induction ccs arbitrary: m) (auto simp: minCacheControlStep_NoCache)

text \<open>The half of the cache rule that holds: \<open>no-cache\<close> anywhere makes the aggregate \<open>no-cache\<close>.\<close>

lemma no_cache_dominates:
  "NoCache (calculateResultCacheControl r) = anyNoCache r"
  "NoCache (findMinCacheControl rs) = list_ex anyNoCache rs"
proof (induction r and rs rule: calculateResultCacheControl_findMinCacheControl.induct)
  case (4 results)
  then show ?case
    by (simp add: foldl_minCacheControlStep_NoCache list_ex_iff)
qed (simp_all add: zeroCacheControl_def del: findMinCacheControl.simps)

lemma no_cache_aggregate:
  "NoCache (calculateCacheControl rs) = list_ex (anyNoCache \<circ> snd) rs"
  by (simp add: calculateCacheControl_def no_cache_dominates list_ex_iff
      del: findMinCacheControl.simps)

text \<open>
  C2 at a multiplexed statement whose first element declares \<open>max-age = 100\<close> and whose
  second declares nothing: the second element's zero \<open>Time\<close> is below 100, so the loop
  copies its absent value over the minimum and the aggregate has no \<open>max-age\<close>, where
  the minimum among the declaring statements is 100. With the two elements swapped the
  aggregate is 100. The same happens to two statements of which the first visited declares
  \<open>max-age = 100\<close> and the second nothing: no \<open>Cache-Control\<close> header is sent.
\<close>

theorem C2_undeclared_statement_erases_max_age:
  "MaxAge (calculateCacheControl
     [(''hero'', DoneResourcesV
        [DoneResourceV (declaredMaxAge 100), DoneResourceV zeroDoneResource])])
     = \<lparr>Exist = False, Time = 0\<rparr>
   \<and> spec_min_age MaxAge
     [(''hero'', DoneResourcesV
        [DoneResourceV (declaredMaxAge 100), DoneResourceV zeroDoneResource])]
     = \<lparr>Exist = True, Time = 100\<rparr>
   \<and> MaxAge (calculateCacheControl
     [(''hero'', DoneResourcesV
        [DoneResourceV zeroDoneResource, DoneResourceV (declaredMaxAge 100)])])
     = \<lparr>Exist = True, Time = 100\<rparr>
   \<and> MaxAge (calculateCacheControl
     [(''hero'', DoneResourceV (declaredMaxAge 100)),
      (''sidekick'', DoneResourceV zeroDoneResource)])
     = \<lparr>Exist = False, Time = 0\<rparr>
   \<and> makeHeaders
     [(''hero'', DoneResourceV (declaredMaxAge 100)),
      (''sidekick'', DoneResourceV zeroDoneResource)] ''Cache-Control'' = None"
  by (simp add: calculateCacheControl_def spec_min_age_def minCacheControlStep_def
      makeHeaders_def generateCacheControlString_def
      declaredMaxAge_def zeroDoneResource_def zeroCacheControl_def zeroCacheControlValue_def)

section \<open>Properties of the response body\<close>

lemma collectResults_eq:
  "drop i details = replicate (length ps) DetailsNil \<Longrightarrow>
   drop i results = replicate (length ps) JNull \<Longrightarrow>
   collectResults i ps (details, results, hasResult) =
     (take i details @ map Details ps, take i results @ map Result ps,
      hasResult \<or> list_ex (\<lambda>p. Result p \<noteq> JNull) ps)"
proof (induction ps arbitrary: i details results hasResult)
  case Nil
  then show ?case by simp
next
  case (Cons p ps)
  from Cons.prems have len: "i < length details" "i < length results"
    by (metis drop_eq_Nil length_Cons length_replicate not_less replicate_empty nat.distinct(1) list.size(3))+
  from Cons.prems have nth: "details ! i = DetailsNil" "results ! i = JNull"
    by (metis Cons_nth_drop_Suc len list.inject replicate_Suc length_Cons)+
  let ?d = "details[i := Details p]" and ?r = "results[i := Result p]"
  have d: "(if Details p \<noteq> DetailsNil then details[i := Details p] else details) = ?d"
    using nth by (metis list_update_id)
  have r: "(if Result p \<noteq> JNull then results[i := Result p] else results) = ?r"
    using nth by (metis list_update_id)
  have dd: "drop (Suc i) ?d = replicate (length ps) DetailsNil"
    using Cons.prems(1) by (metis drop_Suc drop_update_cancel lessI tl_drop tl_replicate length_Cons diff_Suc_1)
  have dr: "drop (Suc i) ?r = replicate (length ps) JNull"
    using Cons.prems(2) by (metis drop_Suc drop_update_cancel lessI tl_drop tl_replicate length_Cons diff_Suc_1)
  have td: "take (Suc i) ?d = take i details @ [Details p]"
    using len by (simp add: take_Suc_conv_app_nth)
  have tr: "take (Suc i) ?r = take i results @ [Result p]"
    using len by (simp add: take_Suc_conv_app_nth)
  show ?case
    using Cons.IH[OF dd dr] by (simp add: d r td tr Let_def del: list_update.simps) 
qed

text \<open>
  C7, as the code has it: for a \<open>DoneResources\<close> of length \<open>n\<close> the details are a
  list of length \<open>n\<close> whose element \<open>i\<close> is the details of resource element \<open>i\<close>;
  the result is the list of the \<open>n\<close> element results when at least one of them is not
  \<open>nil\<close>, and \<open>nil\<close> when all of them are.
\<close>

theorem C7_details_list_and_result_list_or_nil:
  "parseResource (DoneResourcesV rs) debug =
     \<lparr>Details = DetailsList (map (\<lambda>r. Details (parseResource r debug)) rs),
      Result = (if list_ex (\<lambda>r. Result (parseResource r debug) \<noteq> JNull) rs
                then JList (map (\<lambda>r. Result (parseResource r debug)) rs) else JNull)\<rparr>"
  by (simp add: collectResults_eq list_ex_iff comp_def)


text \<open>
  C7 as stated fails when no element has a body: two upstream calls answered 204 with no
  body, and the result is \<open>nil\<close>, not a list of length 2; a \<open>DoneResources\<close> of
  length 0 has the result \<open>nil\<close> too, not the empty list.
\<close>

theorem C7_counterexample:
  "\<not> spec_list_valued 2
     (Result (parseResource
        (DoneResourcesV [DoneResourceV (zeroDoneResource\<lparr>Status := 204\<rparr>),
                         DoneResourceV (zeroDoneResource\<lparr>Status := 204\<rparr>)]) False))
   \<and> \<not> spec_list_valued 0 (Result (parseResource (DoneResourcesV []) False))"
  by (simp add: spec_list_valued_def zeroDoneResource_def)

lemma fold_update_map_of:
  "fold (\<lambda>(k, r) m. m(k \<mapsto> g r)) rs m = m ++ map_of (rev (map (\<lambda>(k, r). (k, g r)) rs))"
proof (induction rs arbitrary: m)
  case Nil
  show ?case by simp
next
  case (Cons x xs)
  obtain k r where x: "x = (k, r)" by (cases x)
  have "m(k \<mapsto> g r) ++ X = m ++ ([k \<mapsto> g r] ++ X)" for X
  proof -
    have "m(k \<mapsto> g r) = m ++ [k \<mapsto> g r]" by simp
    then show ?thesis by (simp only: map_add_assoc)
  qed
  then show ?case
    by (simp add: x Cons.IH del: fun_upd_apply)
qed

lemma map_of_rev_distinct:
  "distinct (map fst xs) \<Longrightarrow> map_of (rev xs) = map_of xs"
  by (rule map_of_inject_set[THEN iffD2]) (simp_all add: rev_map[symmetric])

lemma map_fst_parsed:
  "map fst (map (\<lambda>(k, r). (k, g r)) rs) = map fst rs"
  by (induction rs) auto

lemma Body_MakeQueryResponse:
  assumes "distinct (map fst rs)"
  shows "Body (MakeQueryResponse rs debug) = map_of (map (\<lambda>(k, r). (k, parseResource r debug)) rs)"
proof -
  from assms have "distinct (map fst (map (\<lambda>(k, r). (k, parseResource r debug)) rs))"
    by (simp only: map_fst_parsed)
  then show ?thesis
    by (simp add: MakeQueryResponse_def fold_update_map_of map_of_rev_distinct)
qed

lemma dom_Body_MakeQueryResponse:
  "dom (Body (MakeQueryResponse rs debug)) = set (map fst rs)"
proof -
  have "dom (Body (MakeQueryResponse rs debug))
          = fst ` set (rev (map (\<lambda>(k, r). (k, parseResource r debug)) rs))"
    by (simp add: MakeQueryResponse_def fold_update_map_of dom_map_of_conv_image_fst
        del: set_rev set_map)
  also have "\<dots> = set (map fst (map (\<lambda>(k, r). (k, parseResource r debug)) rs))"
    by (simp only: set_rev set_map)
  finally show ?thesis by (simp only: map_fst_parsed)
qed

text \<open>
  C4, as the code has it: \<open>MakeQueryResponse\<close> is not given the query. For a
  \<open>Resources\<close> map (keys distinct) the body is a map with one entry per key, the
  \<open>parseResource\<close> of that key's resource, and its keys are written in sorted order.
\<close>

theorem C4_body_is_keyed_not_ordered:
  "distinct (map fst rs) \<Longrightarrow>
     Body (MakeQueryResponse rs debug) = map_of (map (\<lambda>(k, r). (k, parseResource r debug)) rs)
     \<and> encodedKeys (Body (MakeQueryResponse rs debug)) = sort (map fst rs)"
proof
  assume d: "distinct (map fst rs)"
  then show "Body (MakeQueryResponse rs debug)
               = map_of (map (\<lambda>(k, r). (k, parseResource r debug)) rs)"
    by (rule Body_MakeQueryResponse)
  have "encodedKeys (Body (MakeQueryResponse rs debug)) = sorted_list_of_set (set (map fst rs))"
    by (simp only: encodedKeys_def dom_Body_MakeQueryResponse)
  also have "\<dots> = sort (remdups (map fst rs))"
    by (rule sorted_list_of_set_sort_remdups)
  finally show "encodedKeys (Body (MakeQueryResponse rs debug)) = sort (map fst rs)"
    using d by (simp only: distinct_remdups_id)
qed

text \<open>
  C4 as stated fails for the query \<open>from sidekick\<close>, \<open>from hero\<close>: the body lists
  \<open>hero\<close> before \<open>sidekick\<close>.
\<close>

theorem C4_counterexample:
  "encodedKeys (Body (MakeQueryResponse
      [(''sidekick'', DoneResourceV (zeroDoneResource\<lparr>Status := 200\<rparr>)),
       (''hero'', DoneResourceV (zeroDoneResource\<lparr>Status := 200\<rparr>))] False))
   \<noteq> map NewResourceID
       (Statements \<lparr>Use = [], Statements = [fromStatement ''sidekick'', fromStatement ''hero'']\<rparr>)"
  by (simp add: encodedKeys_def MakeQueryResponse_def NewResourceID_def fromStatement_def
      zeroStatement_def)

theorem C4_witness:
  "distinct (map fst [(''sidekick'', DoneResourceV zeroDoneResource), (''hero'', OtherValue ''x'')])
   \<and> encodedKeys (Body (MakeQueryResponse
         [(''sidekick'', DoneResourceV zeroDoneResource), (''hero'', OtherValue ''x'')] True))
       = [''hero'', ''sidekick'']"
proof -
  have d: "distinct (map fst
     [(''sidekick'', DoneResourceV zeroDoneResource), (''hero'', OtherValue ''x'')])"
    by simp
  from C4_body_is_keyed_not_ordered [OF d, of True]
  have "encodedKeys (Body (MakeQueryResponse
         [(''sidekick'', DoneResourceV zeroDoneResource), (''hero'', OtherValue ''x'')] True))
        = sort (map fst [(''sidekick'', DoneResourceV zeroDoneResource), (''hero'', OtherValue ''x'')])"
    by (rule conjunct2)
  then show ?thesis by simp
qed


section \<open>Properties of the parser entry point and of the no-op database\<close>

text \<open>
  C8: when the generator reports an error for the input (the input violates the grammar),
  \<open>Parse\<close> returns that error with the zero \<open>Query\<close>, whatever the generator
  returned beside the error.
\<close>

theorem C8_parse_error_gives_zero_query:
  "snd (astGenerator p queryStr) = Some err \<Longrightarrow>
     Parse Optimize p queryStr = (zeroQuery, Some err)"
  by (cases "astGenerator p queryStr") (simp add: Parse_def)

theorem C8_witness:
  "snd (astGenerator \<lparr>astGenerator = rejectingGenerator\<rparr> ''from'')
     = Some (Error ''1:5 (4): no match found'')
   \<and> Parse (\<lambda>q. (zeroQuery\<lparr>Statements := [zeroStatement]\<rparr>, None))
        \<lparr>astGenerator = rejectingGenerator\<rparr> ''from''
     = (zeroQuery, Some (Error ''1:5 (4): no match found''))"
  using C8_parse_error_gives_zero_query
    [of "\<lparr>astGenerator = rejectingGenerator\<rparr>" "''from''" "Error ''1:5 (4): no match found''"
        "\<lambda>q. (zeroQuery\<lparr>Statements := [zeroStatement]\<rparr>, None)"]
  by (simp add: rejectingGenerator_def)

text \<open>
  C9: with no database plugin registered \<open>NewDatabase\<close> returns the no-op database
  and no error, and both methods of that database return an empty result with the error
  \<open>no op database\<close>.
\<close>

theorem C9_missing_plugin_gives_noop_database:
  "fst (NewDatabase None) = (noOpDatabase, None)
   \<and> FindMappingsForTenant (fst (fst (NewDatabase None))) tenantID
       = ([], Some (Error ''no op database''))
   \<and> FindQuery (fst (fst (NewDatabase None))) namespace name revision
       = (zeroSavedQuery, Some (Error ''no op database''))"
  by (simp add: NewDatabase_def errNoDatabase_def)



section \<open>The aggregation model against the test table\<close>

lemmas test_defs = ApplyAggregators_def applyIn_def NewResourceID_def testQuery_def bodied_def
  zeroStatement_def person_def batman_def wonderWoman_def robin_def batgirl_def emptyBody_def

lemma test_no_aggregator:
  "ApplyAggregators (testQuery [])
     [(''hero'', bodied JNull), (''sidekick'', bodied JNull)]
   = [(''hero'', bodied JNull), (''sidekick'', bodied JNull)]"
  by (simp add: test_defs)

lemma test_one_inside_other:
  "ApplyAggregators (testQuery [''hero'', ''sidekick''])
     [(''hero'', bodied (JObj batman)), (''sidekick'', bodied robin)]
   = [(''hero'', bodied (JObj (batman @ [(''sidekick'', robin)]))),
      (''sidekick'', bodied emptyBody)]"
  by (simp add: test_defs)

lemma test_deep_location:
  "ApplyAggregators (testQuery [''hero'', ''info'', ''partners'', ''sidekick''])
     [(''hero'', bodied (JObj batman)), (''sidekick'', bodied robin)]
   = [(''hero'', bodied (JObj (batman @
         [(''info'', JObj [(''partners'', JObj [(''sidekick'', robin)])])]))),
      (''sidekick'', bodied emptyBody)]"
  by (simp add: test_defs)

lemma test_list_inside_other:
  "ApplyAggregators (testQuery [''hero'', ''sidekick''])
     [(''hero'', bodied (JObj batman)), (''sidekick'', bodied (JList [robin, batgirl]))]
   = [(''hero'', bodied (JObj (batman @ [(''sidekick'', JList [robin, batgirl])]))),
      (''sidekick'', bodied emptyBody)]"
  by (simp add: test_defs)

lemma test_inside_multiplexed:
  "ApplyAggregators (testQuery [''hero'', ''sidekick''])
     [(''hero'', DoneResourcesV [bodied (JObj batman), bodied (JObj wonderWoman)]),
      (''sidekick'', bodied robin)]
   = [(''hero'', DoneResourcesV [bodied (JObj (batman @ [(''sidekick'', robin)])),
                                 bodied (JObj (wonderWoman @ [(''sidekick'', robin)]))]),
      (''sidekick'', bodied emptyBody)]"
  by (simp add: test_defs)

lemma test_inside_every_item:
  "ApplyAggregators (testQuery [''hero'', ''sidekick''])
     [(''hero'', bodied (JList [JObj batman, JObj wonderWoman])), (''sidekick'', bodied robin)]
   = [(''hero'', bodied (JList [JObj (batman @ [(''sidekick'', robin)]),
                                JObj (wonderWoman @ [(''sidekick'', robin)])])),
      (''sidekick'', bodied emptyBody)]"
  by (simp add: test_defs)

lemma test_multiplexed_inside_other:
  "ApplyAggregators (testQuery [''hero'', ''sidekick''])
     [(''hero'', bodied (JObj batman)),
      (''sidekick'', DoneResourcesV [bodied robin, bodied batgirl])]
   = [(''hero'', bodied (JObj (batman @ [(''sidekick'', JList [robin, batgirl])]))),
      (''sidekick'', DoneResourcesV [bodied emptyBody, bodied emptyBody])]"
  by (simp add: test_defs)

lemma test_multiplexed_with_multiplexed:
  "ApplyAggregators (testQuery [''hero'', ''sidekick''])
     [(''hero'', DoneResourcesV [bodied (JObj batman), bodied (JObj wonderWoman)]),
      (''sidekick'', DoneResourcesV [bodied robin, bodied batgirl])]
   = [(''hero'', DoneResourcesV [bodied (JObj (batman @ [(''sidekick'', robin)])),
                                 bodied (JObj (wonderWoman @ [(''sidekick'', batgirl)]))]),
      (''sidekick'', DoneResourcesV [bodied emptyBody, bodied emptyBody])]"
  by (simp add: test_defs)

lemma test_list_with_list:
  "ApplyAggregators (testQuery [''hero'', ''sidekick''])
     [(''hero'', bodied (JList [JObj batman, JObj wonderWoman])),
      (''sidekick'', bodied (JList [robin, batgirl]))]
   = [(''hero'', bodied (JList [JObj (batman @ [(''sidekick'', robin)]),
                                JObj (wonderWoman @ [(''sidekick'', batgirl)])])),
      (''sidekick'', bodied emptyBody)]"
  by (simp add: test_defs)

section \<open>Properties of the aggregation\<close>

lemma map2_nth:
  "length xs = length ys \<Longrightarrow>
     map (\<lambda>(x, y). f x y) (zip xs ys) = map (\<lambda>i. f (xs ! i) (ys ! i)) [0..<length ys]"
  by (rule nth_equalityI) simp_all

text \<open>
  C5: when the source body and the target body are lists of the same length, and when the
  source and the target are both multiplexed with the same length, the insertion is
  index-wise: element \<open>i\<close> of the result is source element \<open>i\<close> inserted into target
  element \<open>i\<close> at the path.
\<close>

theorem C5_equal_length_lists_are_zipped:
  assumes "length sources = length targets" and "length srcs = length tgts"
  shows "insertBody path (JList sources) (JList targets)
           = JList (map (\<lambda>i. insertBody path (sources ! i) (targets ! i))
                      [0..<length targets])
         \<and> aggregateResource path (DoneResourcesV srcs) (DoneResourcesV tgts)
           = DoneResourcesV (map (\<lambda>i. aggregateResource path (srcs ! i) (tgts ! i))
                      [0..<length tgts])"
  using assms by (simp add: map2_nth)

theorem C5_witness:
  "length [robin, batgirl] = length [JObj batman, JObj wonderWoman]
   \<and> length [bodied robin, bodied batgirl]
       = length [bodied (JObj batman), bodied (JObj wonderWoman)]
   \<and> insertBody [''sidekick''] (JList [robin, batgirl]) (JList [JObj batman, JObj wonderWoman])
       = JList [JObj (batman @ [(''sidekick'', robin)]),
                JObj (wonderWoman @ [(''sidekick'', batgirl)])]
   \<and> aggregateResource [''sidekick''] (DoneResourcesV [bodied robin, bodied batgirl])
         (DoneResourcesV [bodied (JObj batman), bodied (JObj wonderWoman)])
       = DoneResourcesV [bodied (JObj (batman @ [(''sidekick'', robin)])),
                         bodied (JObj (wonderWoman @ [(''sidekick'', batgirl)]))]"
  using C5_equal_length_lists_are_zipped
    [of "[robin, batgirl]" "[JObj batman, JObj wonderWoman]"
        "[bodied robin, bodied batgirl]" "[bodied (JObj batman), bodied (JObj wonderWoman)]"
        "[''sidekick'']"]
  by (simp add: bodied_def person_def batman_def wonderWoman_def robin_def batgirl_def)

text \<open>
  C6: a source body that is not a list is inserted into every element of a target list,
  also when the list is met below a key of the path, and a source that is a single
  \<open>DoneResource\<close> is inserted into every element of a multiplexed target.
\<close>

theorem C6_scalar_source_is_broadcast:
  assumes "\<not> isJList source"
    and "map_of entries key = Some (JList targets)"
  shows "insertBody path source (JList targets) = JList (map (insertBody path source) targets)
         \<and> insertBody (key # next # rest) source (JObj entries)
           = JObj (AList.update key
                     (JList (map (insertBody (next # rest) source) targets)) entries)
         \<and> aggregateResource path (DoneResourceV src) (DoneResourcesV tgts)
           = DoneResourcesV (map (aggregateResource path (DoneResourceV src)) tgts)"
  using assms by (cases source) (simp_all add: isJList_def)

theorem C6_witness:
  "\<not> isJList robin
   \<and> map_of [(''team'', JList [JObj batman, JObj wonderWoman])] ''team''
       = Some (JList [JObj batman, JObj wonderWoman])
   \<and> insertBody [''sidekick''] robin (JList [JObj batman, JObj wonderWoman])
       = JList [JObj (batman @ [(''sidekick'', robin)]),
                JObj (wonderWoman @ [(''sidekick'', robin)])]
   \<and> insertBody [''team'', ''sidekick''] robin
         (JObj [(''team'', JList [JObj batman, JObj wonderWoman])])
       = JObj [(''team'', JList [JObj (batman @ [(''sidekick'', robin)]),
                                JObj (wonderWoman @ [(''sidekick'', robin)])])]
   \<and> aggregateResource [''sidekick''] (DoneResourceV (zeroDoneResource\<lparr>ResponseBody := robin\<rparr>))
         (DoneResourcesV [bodied (JObj batman), bodied (JObj wonderWoman)])
       = DoneResourcesV [bodied (JObj (batman @ [(''sidekick'', robin)])),
                         bodied (JObj (wonderWoman @ [(''sidekick'', robin)]))]"
  using C6_scalar_source_is_broadcast
    [of robin "[(''team'', JList [JObj batman, JObj wonderWoman])]" "''team''"
        "[JObj batman, JObj wonderWoman]" "[''sidekick'']" "''sidekick''" "[]"
        "zeroDoneResource\<lparr>ResponseBody := robin\<rparr>"
        "[bodied (JObj batman), bodied (JObj wonderWoman)]"]
  by (simp add: isJList_def bodied_def person_def batman_def wonderWoman_def robin_def)




















text \<open>
  The no-op of the second run is stated for a first run in which the aggregations took
  place. In this model a statement whose insertion finds no place in the first run (the
  key \<open>team\<close> of the hero holds a number) can find one in the second, once another
  statement has set that key to an object.
\<close>

lemma rerun_after_an_insertion_without_place:
  "ApplyAggregators
     \<lparr>Use = [], Statements =
        [zeroStatement\<lparr>Resource := ''sidekick'', In := [''hero'', ''team'', ''sidekick'']\<rparr>,
         zeroStatement\<lparr>Resource := ''villain'', In := [''hero'', ''team'']\<rparr>]\<rparr>
     (ApplyAggregators
        \<lparr>Use = [], Statements =
           [zeroStatement\<lparr>Resource := ''sidekick'', In := [''hero'', ''team'', ''sidekick'']\<rparr>,
            zeroStatement\<lparr>Resource := ''villain'', In := [''hero'', ''team'']\<rparr>]\<rparr>
        [(''hero'', bodied (JObj [(''team'', JNum 5)])), (''sidekick'', bodied robin),
         (''villain'', bodied batgirl)])
   \<noteq> ApplyAggregators
        \<lparr>Use = [], Statements =
           [zeroStatement\<lparr>Resource := ''sidekick'', In := [''hero'', ''team'', ''sidekick'']\<rparr>,
            zeroStatement\<lparr>Resource := ''villain'', In := [''hero'', ''team'']\<rparr>]\<rparr>
        [(''hero'', bodied (JObj [(''team'', JNum 5)])), (''sidekick'', bodied robin),
         (''villain'', bodied batgirl)]"
  by (simp add: test_defs zeroDoneResource_def)


end
